theory Spec2Isabelle
  imports Complex_Main "HOL-Library.Word"
begin

unbundle bit_operations_syntax

section \<open>Linux frame layout: the embedding\<close>

text \<open>
  The development follows \<^verbatim>\<open>shell/browser/ui/views/linux_frame_layout.cc\<close> and its
  header. A layout object is one of three classes; every virtual method becomes one
  function per class plus a dispatching function on the object's dynamic class. The GUI
  toolkit (window, widget, theme, frame provider, layout provider) is a record that holds
  what each toolkit getter answers at the moment of the call. A pointer that the toolkit
  hands out and that the code dereferences is an \<open>option\<close>; dereferencing \<open>None\<close> is
  the error value \<open>NullPointerDereference\<close>.
\<close>

subsection \<open>Errors\<close>

datatype error = NullPointerDereference

definition deref :: "'a option \<Rightarrow> error + 'a" where
  "deref p = (case p of None \<Rightarrow> Inl NullPointerDereference | Some v \<Rightarrow> Inr v)"

definition and_then :: "error + 'a \<Rightarrow> ('a \<Rightarrow> error + 'b) \<Rightarrow> error + 'b" where
  "and_then r f = (case r of Inl e \<Rightarrow> Inl e | Inr v \<Rightarrow> f v)"

subsection \<open>Toolkit value types\<close>

text \<open>
  \<^verbatim>\<open>gfx::Insets\<close>, \<^verbatim>\<open>gfx::Rect\<close>, \<^verbatim>\<open>gfx::RectF\<close> and \<^verbatim>\<open>gfx::ShadowValue\<close>
  are toolkit classes whose declarations are not among the sources; they are written here
  as the value types the code uses them as, with the operations the code calls.

  The four sides of \<^verbatim>\<open>gfx::Insets\<close> are 32-bit signed integers, read with \<open>sint\<close>.
  The class keeps \<open>top + bottom\<close> and \<open>left + right\<close> within the range of a 32-bit
  integer: every setter stores the bottom or right side through
  \<^verbatim>\<open>ClampBottomOrRight\<close>, which gives up as much of that side as the saturated sum
  requires, and \<^verbatim>\<open>TLBR\<close> and \<^verbatim>\<open>Insets(int)\<close> are built from the setters.
  \<open>IsEmpty\<close> is the toolkit's test: width and height, the sums of opposite sides, are
  both zero. \<open>nonneg_insets\<close> says that no side is negative.

  Rectangles are on unbounded \<open>int\<close> (the toolkit saturates their arithmetic at the
  limits of a 32-bit integer), and a rectangle coordinate that becomes an inset side is
  brought into 32 bits by \<open>saturated_cast\<close>. The single- and double-precision numbers of
  the shadow geometry are exact rationals (the toolkit also rounds an extent below a few
  units in the last place to zero).
\<close>

type_synonym int32 = "32 word"

definition INT_MAX :: int where
  "INT_MAX = 2147483647"

definition INT_MIN :: int where
  "INT_MIN = - 2147483648"

definition saturated_cast :: "int \<Rightarrow> int32" where
  "saturated_cast k = word_of_int (max INT_MIN (min INT_MAX k))"

definition ClampAdd :: "int32 \<Rightarrow> int32 \<Rightarrow> int32" where
  "ClampAdd a b = saturated_cast (sint a + sint b)"

definition ClampBottomOrRight :: "int32 \<Rightarrow> int32 \<Rightarrow> int32" where
  "ClampBottomOrRight top_or_left bottom_or_right =
     ClampAdd top_or_left bottom_or_right - top_or_left"

datatype insets =
  Insets_members (top_in: int32) (left_in: int32) (bottom_in: int32) (right_in: int32)

definition Insets_default :: insets where
  "Insets_default = Insets_members 0 0 0 0"

definition Insets_all :: "int32 \<Rightarrow> insets" where
  "Insets_all n = Insets_members n n (ClampBottomOrRight n n) (ClampBottomOrRight n n)"

definition set_top :: "int32 \<Rightarrow> insets \<Rightarrow> insets" where
  "set_top v i =
     Insets_members v (left_in i) (ClampBottomOrRight v (bottom_in i)) (right_in i)"

definition set_left :: "int32 \<Rightarrow> insets \<Rightarrow> insets" where
  "set_left v i =
     Insets_members (top_in i) v (bottom_in i) (ClampBottomOrRight v (right_in i))"

definition set_bottom :: "int32 \<Rightarrow> insets \<Rightarrow> insets" where
  "set_bottom v i =
     Insets_members (top_in i) (left_in i) (ClampBottomOrRight (top_in i) v) (right_in i)"

definition set_right :: "int32 \<Rightarrow> insets \<Rightarrow> insets" where
  "set_right v i =
     Insets_members (top_in i) (left_in i) (bottom_in i) (ClampBottomOrRight (left_in i) v)"

definition TLBR :: "int32 \<Rightarrow> int32 \<Rightarrow> int32 \<Rightarrow> int32 \<Rightarrow> insets" where
  "TLBR t l b r = set_right r (set_bottom b (set_left l (set_top t Insets_default)))"

definition insets_width :: "insets \<Rightarrow> int" where
  "insets_width i = sint (left_in i) + sint (right_in i)"

definition insets_height :: "insets \<Rightarrow> int" where
  "insets_height i = sint (top_in i) + sint (bottom_in i)"

definition IsEmpty :: "insets \<Rightarrow> bool" where
  "IsEmpty i = (insets_width i = 0 \<and> insets_height i = 0)"

definition nonneg_insets :: "insets \<Rightarrow> bool" where
  "nonneg_insets i =
     (0 \<le> sint (top_in i) \<and> 0 \<le> sint (left_in i) \<and> 0 \<le> sint (bottom_in i)
      \<and> 0 \<le> sint (right_in i))"

definition negate :: "insets \<Rightarrow> insets" where
  "negate i = TLBR (saturated_cast (- sint (top_in i))) (saturated_cast (- sint (left_in i)))
                (saturated_cast (- sint (bottom_in i))) (saturated_cast (- sint (right_in i)))"

record rect =
  rect_x :: int
  rect_y :: int
  rect_width :: int
  rect_height :: int

definition Rect_default :: rect where
  "Rect_default = \<lparr>rect_x = 0, rect_y = 0, rect_width = 0, rect_height = 0\<rparr>"

definition rect_right :: "rect \<Rightarrow> int" where
  "rect_right r = rect_x r + rect_width r"

definition rect_bottom :: "rect \<Rightarrow> int" where
  "rect_bottom r = rect_y r + rect_height r"

definition rect_IsEmpty :: "rect \<Rightarrow> bool" where
  "rect_IsEmpty r = (rect_width r = 0 \<or> rect_height r = 0)"

definition SetByBounds :: "int \<Rightarrow> int \<Rightarrow> int \<Rightarrow> int \<Rightarrow> rect" where
  "SetByBounds l t r b =
     \<lparr>rect_x = l, rect_y = t, rect_width = max 0 (r - l), rect_height = max 0 (b - t)\<rparr>"

definition Rect_Inset :: "rect \<Rightarrow> insets \<Rightarrow> rect" where
  "Rect_Inset r i =
     \<lparr>rect_x = rect_x r + sint (left_in i), rect_y = rect_y r + sint (top_in i),
      rect_width = max 0 (rect_width r - insets_width i),
      rect_height = max 0 (rect_height r - insets_height i)\<rparr>"

definition Rect_Union :: "rect \<Rightarrow> rect \<Rightarrow> rect" where
  "Rect_Union a b =
     (if rect_IsEmpty a then b
      else if rect_IsEmpty b then a
      else SetByBounds (min (rect_x a) (rect_x b)) (min (rect_y a) (rect_y b))
             (max (rect_right a) (rect_right b)) (max (rect_bottom a) (rect_bottom b)))"

record rect_f =
  f_x :: rat
  f_y :: rat
  f_width :: rat
  f_height :: rat

definition RectF_default :: rect_f where
  "RectF_default = \<lparr>f_x = 0, f_y = 0, f_width = 0, f_height = 0\<rparr>"

definition RectF_Inset_all :: "rect_f \<Rightarrow> rat \<Rightarrow> rect_f" where
  \<comment> \<open>\<^verbatim>\<open>RectF::Inset\<close> with the uniform \<^verbatim>\<open>InsetsF(v)\<close>\<close>
  "RectF_Inset_all r v =
     \<lparr>f_x = f_x r + v, f_y = f_y r + v,
      f_width = max 0 (f_width r - (v + v)), f_height = max 0 (f_height r - (v + v))\<rparr>"

definition ToEnclosingRect :: "rect_f \<Rightarrow> rect" where
  "ToEnclosingRect r =
     (let l = \<lfloor>f_x r\<rfloor>;
          rt = (if f_width r \<noteq> 0 then \<lceil>f_x r + f_width r\<rceil> else l);
          t = \<lfloor>f_y r\<rfloor>;
          b = (if f_height r \<noteq> 0 then \<lceil>f_y r + f_height r\<rceil> else t)
      in SetByBounds l t rt b)"

record shadow_value =
  blur :: rat
  offset_x :: int
  offset_y :: int

subsection \<open>Skia rounded rectangles\<close>

text \<open>
  An \<^verbatim>\<open>SkRRect\<close> is recorded as the call that built it: \<^verbatim>\<open>setRect\<close> for square
  corners, \<^verbatim>\<open>setRectRadii\<close> with the four corner radii in Skia's order (upper left,
  upper right, lower right, lower left). A scalar is the integer it was converted from, or
  the paint function's \<^verbatim>\<open>1 / canvas.image_scale()\<close>.
\<close>

datatype sk_scalar = SkIntToScalar int | OneOverImageScale

datatype sk_point = SkPoint sk_scalar sk_scalar

datatype sk_rect = RectToSkRect rect

datatype sk_rrect =
    setRect sk_rect
  | setRectRadii sk_rect sk_point sk_point sk_point sk_point

definition SkPoint_default :: sk_point where
  "SkPoint_default = SkPoint (SkIntToScalar 0) (SkIntToScalar 0)"

subsection \<open>The toolkit at the time of a call\<close>

record frame_provider =
  GetFrameThicknessDip :: insets
  GetTopCornerRadiusDip :: int

datatype emphasis = kMaximum | kMedium

type_synonym sk_color = "32 word"

text \<open>
  \<open>tree_host\<close> is \<^verbatim>\<open>GetHostForWidget(window->GetAcceleratedWidget())\<close>: \<open>None\<close> for a
  null host, \<open>Some b\<close> for a host whose \<^verbatim>\<open>SupportsClientFrameShadow()\<close> answers \<open>b\<close>.
  \<open>widget\<close> is \<^verbatim>\<open>window->widget()\<close> with its \<^verbatim>\<open>GetWindowBoundsInScreen()\<close>.
  \<open>linux_ui_theme\<close> is \<^verbatim>\<open>ui::LinuxUiTheme::GetForProfile(nullptr)\<close> with its
  \<^verbatim>\<open>GetWindowFrameProvider(solid_frame, tiled, maximized)\<close>, itself a pointer.
  \<open>layout_provider\<close> is \<^verbatim>\<open>views::LayoutProvider::Get()\<close> with its
  \<^verbatim>\<open>GetShadowElevationMetric\<close>; \<open>MakeMdShadowValues\<close> is the toolkit's table of
  shadows for an elevation, and \<open>PickContrastingColor\<close> is
  \<^verbatim>\<open>color_utils::PickContrastingColor(foreground1, foreground2, background)\<close>.
\<close>

record toolkit =
  IsX11 :: bool
  IsRTL :: bool
  IsTranslucent :: bool
  IsMaximized :: bool
  IsFullscreen :: bool
  tree_host :: "bool option"
  widget :: "rect option"
  linux_ui_theme :: "(bool \<Rightarrow> bool \<Rightarrow> bool \<Rightarrow> frame_provider option) option"
  layout_provider :: "(emphasis \<Rightarrow> int) option"
  MakeMdShadowValues :: "int \<Rightarrow> shadow_value list"
  PickContrastingColor :: "sk_color \<Rightarrow> sk_color \<Rightarrow> sk_color \<Rightarrow> sk_color"

subsection \<open>Layout objects\<close>

text \<open>
  The data members of \<^verbatim>\<open>LinuxCSDBaseLayout\<close> besides the window pointer are
  \<^verbatim>\<open>tiled_\<close> and \<^verbatim>\<open>host_supports_client_frame_shadow_\<close>, written here with the
  suffix \<open>_m\<close>; the undecorated layout has \<^verbatim>\<open>tiled_\<close> only. The window pointer is
  not a field: the layout belongs to one window, the one the toolkit record describes, and
  the window itself is there for as long as its layout is.
\<close>

record csd_base =
  tiled_m :: bool
  host_supports_client_frame_shadow_m :: bool

datatype layout =
    LinuxCSDNativeFrameLayout csd_base
  | LinuxCSDCustomFrameLayout csd_base
  | LinuxUndecoratedFrameLayout bool

datatype csd_style = kNativeFrame | kCustom

definition kResizeBorder :: int32 where
  "kResizeBorder = 10"

definition kResizeInsideBoundsSize :: int32 where
  "kResizeInsideBoundsSize = 5"

definition kDefaultCustomFrameBorder :: insets where
  "kDefaultCustomFrameBorder = TLBR 2 1 1 1"

subsection \<open>\<^verbatim>\<open>LinuxCSDBaseLayout\<close>\<close>

definition LinuxCSDBaseLayout_SupportsClientFrameShadow :: "toolkit \<Rightarrow> bool" where
  "LinuxCSDBaseLayout_SupportsClientFrameShadow tk =
     (case tree_host tk of None \<Rightarrow> False | Some supports \<Rightarrow> supports)"

definition LinuxCSDBaseLayout_ctor :: "toolkit \<Rightarrow> csd_base" where
  "LinuxCSDBaseLayout_ctor tk =
     \<lparr>tiled_m = False, host_supports_client_frame_shadow_m = False\<rparr>
       \<lparr>host_supports_client_frame_shadow_m := LinuxCSDBaseLayout_SupportsClientFrameShadow tk\<rparr>"

definition LinuxCSDBaseLayout_IsShowingShadow :: "toolkit \<Rightarrow> csd_base \<Rightarrow> bool" where
  "LinuxCSDBaseLayout_IsShowingShadow tk this =
     (host_supports_client_frame_shadow_m this \<and> \<not> IsMaximized tk \<and> \<not> IsFullscreen tk)"

definition LinuxCSDBaseLayout_GetInputInsets :: "toolkit \<Rightarrow> csd_base \<Rightarrow> insets" where
  "LinuxCSDBaseLayout_GetInputInsets tk this =
     (let showing_shadow = LinuxCSDBaseLayout_IsShowingShadow tk this
      in Insets_all (if showing_shadow then kResizeBorder else 0))"

definition std_max :: "int32 \<Rightarrow> int32 \<Rightarrow> int32" where
  \<comment> \<open>\<^verbatim>\<open>std::max\<close> on \<^verbatim>\<open>int\<close>: the second argument when the first is less\<close>
  "std_max a b = (if sint a < sint b then b else a)"

definition expand_if_visible :: "int32 \<Rightarrow> int32 \<Rightarrow> int32" where
  "expand_if_visible side_thickness min_band =
     (if sint side_thickness > 0 then std_max side_thickness min_band else 0)"

definition NormalizeBorderInsets :: "toolkit \<Rightarrow> insets \<Rightarrow> insets \<Rightarrow> insets" where
  "NormalizeBorderInsets tk frame_insets input_insets =
     (let merged = Insets_default;
          merged = set_top (expand_if_visible (top_in frame_insets) (top_in input_insets)) merged;
          merged = set_left (expand_if_visible (left_in frame_insets) (left_in input_insets)) merged;
          merged = set_bottom
                     (expand_if_visible (bottom_in frame_insets) (bottom_in input_insets)) merged;
          merged = set_right
                     (expand_if_visible (right_in frame_insets) (right_in input_insets)) merged
      in if IsRTL tk
         then TLBR (top_in merged) (right_in merged) (bottom_in merged) (left_in merged)
         else merged)"

subsection \<open>\<^verbatim>\<open>LinuxCSDNativeFrameLayout\<close>\<close>

definition GetFrameProvider :: "toolkit \<Rightarrow> csd_base \<Rightarrow> error + frame_provider option" where
  "GetFrameProvider tk this =
     and_then (deref (linux_ui_theme tk))
       (\<lambda>theme. Inr (theme (\<not> host_supports_client_frame_shadow_m this) (tiled_m this)
                          (IsMaximized tk)))"

definition LinuxCSDNativeFrameLayout_RestoredFrameBorderInsets ::
  "toolkit \<Rightarrow> csd_base \<Rightarrow> error + insets" where
  "LinuxCSDNativeFrameLayout_RestoredFrameBorderInsets tk this =
     (let input_insets = LinuxCSDBaseLayout_GetInputInsets tk this
      in and_then (GetFrameProvider tk this) (\<lambda>p.
         and_then (deref p) (\<lambda>provider.
           let frame_insets = GetFrameThicknessDip provider
           in Inr (NormalizeBorderInsets tk frame_insets input_insets))))"

subsection \<open>\<^verbatim>\<open>LinuxCSDCustomFrameLayout\<close>\<close>

definition GetFrameShadowValuesLinux :: "toolkit \<Rightarrow> bool \<Rightarrow> error + shadow_value list" where
  "GetFrameShadowValuesLinux tk active =
     and_then (deref (layout_provider tk)) (\<lambda>GetShadowElevationMetric.
       let elevation = GetShadowElevationMetric (if active then kMaximum else kMedium)
       in Inr (MakeMdShadowValues tk elevation))"

definition shadow_step :: "rect \<Rightarrow> shadow_value \<Rightarrow> rect" where
  \<comment> \<open>one round of the loop over the shadow values\<close>
  "shadow_step frame_extents shadow_value =
     (let shadow_radius = blur shadow_value / 4;
          shadow_extents = RectF_Inset_all RectF_default (- shadow_radius);
          shadow_extents = shadow_extents
            \<lparr>f_x := f_x shadow_extents + of_int (offset_x shadow_value),
             f_y := f_y shadow_extents + of_int (offset_y shadow_value)\<rparr>
      in Rect_Union frame_extents (ToEnclosingRect shadow_extents))"

definition LinuxCSDCustomFrameLayout_RestoredFrameBorderInsets ::
  "toolkit \<Rightarrow> csd_base \<Rightarrow> error + insets" where
  "LinuxCSDCustomFrameLayout_RestoredFrameBorderInsets tk this =
     (let input_insets = LinuxCSDBaseLayout_GetInputInsets tk this;
          showing_shadow = LinuxCSDBaseLayout_IsShowingShadow tk this;
          frame_insets = kDefaultCustomFrameBorder
      in if showing_shadow
         then and_then (if tiled_m this then Inr [] else GetFrameShadowValuesLinux tk True)
               (\<lambda>shadow_values.
                 let frame_extents = foldl shadow_step Rect_default shadow_values;
                     input_extents = Rect_Inset Rect_default (negate input_insets);
                     frame_extents = Rect_Union frame_extents input_extents;
                     frame_insets = TLBR (saturated_cast (- rect_y frame_extents))
                                      (saturated_cast (- rect_x frame_extents))
                                      (saturated_cast (rect_bottom frame_extents))
                                      (saturated_cast (rect_right frame_extents))
                 in Inr (NormalizeBorderInsets tk frame_insets input_insets))
         else Inr (NormalizeBorderInsets tk (set_top 0 frame_insets) input_insets))"

subsection \<open>Virtual dispatch\<close>

fun RestoredFrameBorderInsets :: "toolkit \<Rightarrow> layout \<Rightarrow> error + insets" where
  "RestoredFrameBorderInsets tk (LinuxCSDNativeFrameLayout this) =
     LinuxCSDNativeFrameLayout_RestoredFrameBorderInsets tk this"
| "RestoredFrameBorderInsets tk (LinuxCSDCustomFrameLayout this) =
     LinuxCSDCustomFrameLayout_RestoredFrameBorderInsets tk this"
| "RestoredFrameBorderInsets tk (LinuxUndecoratedFrameLayout tiled_u) = Inr Insets_default"

fun GetInputInsets :: "toolkit \<Rightarrow> layout \<Rightarrow> insets" where
  "GetInputInsets tk (LinuxCSDNativeFrameLayout this) = LinuxCSDBaseLayout_GetInputInsets tk this"
| "GetInputInsets tk (LinuxCSDCustomFrameLayout this) = LinuxCSDBaseLayout_GetInputInsets tk this"
| "GetInputInsets tk (LinuxUndecoratedFrameLayout tiled_u) = Insets_all kResizeInsideBoundsSize"

definition GetResizeBorderInsets :: "toolkit \<Rightarrow> layout \<Rightarrow> error + insets" where
  "GetResizeBorderInsets tk this =
     and_then (RestoredFrameBorderInsets tk this) (\<lambda>insets.
       Inr (if IsEmpty insets then GetInputInsets tk this else insets))"

fun IsShowingShadow :: "toolkit \<Rightarrow> layout \<Rightarrow> bool" where
  "IsShowingShadow tk (LinuxCSDNativeFrameLayout this) = LinuxCSDBaseLayout_IsShowingShadow tk this"
| "IsShowingShadow tk (LinuxCSDCustomFrameLayout this) = LinuxCSDBaseLayout_IsShowingShadow tk this"
| "IsShowingShadow tk (LinuxUndecoratedFrameLayout tiled_u) = False"

fun SupportsClientFrameShadow :: "toolkit \<Rightarrow> layout \<Rightarrow> bool" where
  "SupportsClientFrameShadow tk (LinuxCSDNativeFrameLayout this) =
     LinuxCSDBaseLayout_SupportsClientFrameShadow tk"
| "SupportsClientFrameShadow tk (LinuxCSDCustomFrameLayout this) =
     LinuxCSDBaseLayout_SupportsClientFrameShadow tk"
| "SupportsClientFrameShadow tk (LinuxUndecoratedFrameLayout tiled_u) = False"

fun tiled :: "layout \<Rightarrow> bool" where
  "tiled (LinuxCSDNativeFrameLayout this) = tiled_m this"
| "tiled (LinuxCSDCustomFrameLayout this) = tiled_m this"
| "tiled (LinuxUndecoratedFrameLayout tiled_u) = tiled_u"

fun set_tiled :: "bool \<Rightarrow> layout \<Rightarrow> layout" where
  "set_tiled b (LinuxCSDNativeFrameLayout this) = LinuxCSDNativeFrameLayout (this\<lparr>tiled_m := b\<rparr>)"
| "set_tiled b (LinuxCSDCustomFrameLayout this) = LinuxCSDCustomFrameLayout (this\<lparr>tiled_m := b\<rparr>)"
| "set_tiled b (LinuxUndecoratedFrameLayout tiled_u) = LinuxUndecoratedFrameLayout b"

fun GetWindowBounds :: "toolkit \<Rightarrow> layout \<Rightarrow> error + rect" where
  "GetWindowBounds tk (LinuxUndecoratedFrameLayout tiled_u) = deref (widget tk)"
| "GetWindowBounds tk this =
     and_then (deref (widget tk)) (\<lambda>bounds.
       and_then (RestoredFrameBorderInsets tk this) (\<lambda>insets.
         Inr (Rect_Inset bounds insets)))"

fun GetRoundedWindowBounds :: "toolkit \<Rightarrow> layout \<Rightarrow> error + sk_rrect" where
  "GetRoundedWindowBounds tk (LinuxCSDNativeFrameLayout this) =
     and_then (GetWindowBounds tk (LinuxCSDNativeFrameLayout this)) (\<lambda>bounds.
       let rect = RectToSkRect bounds
       in if \<not> IsMaximized tk
          then and_then (GetFrameProvider tk this) (\<lambda>p.
               and_then (deref p) (\<lambda>provider.
                 let radius = SkIntToScalar (GetTopCornerRadiusDip provider);
                     round_point = SkPoint radius radius
                 in Inr (setRectRadii rect round_point round_point
                           SkPoint_default SkPoint_default)))
          else Inr (setRect rect))"
| "GetRoundedWindowBounds tk this =
     and_then (GetWindowBounds tk this) (\<lambda>bounds. Inr (setRect (RectToSkRect bounds)))"

fun GetTranslucentTopAreaHeight :: "toolkit \<Rightarrow> layout \<Rightarrow> int" where
  "GetTranslucentTopAreaHeight tk (LinuxCSDNativeFrameLayout this) = 0"
| "GetTranslucentTopAreaHeight tk (LinuxCSDCustomFrameLayout this) = 0"
| "GetTranslucentTopAreaHeight tk (LinuxUndecoratedFrameLayout tiled_u) = 0"

datatype layout_class = NativeFrame | CustomFrame | Undecorated

fun dynamic_class :: "layout \<Rightarrow> layout_class" where
  "dynamic_class (LinuxCSDNativeFrameLayout this) = NativeFrame"
| "dynamic_class (LinuxCSDCustomFrameLayout this) = CustomFrame"
| "dynamic_class (LinuxUndecoratedFrameLayout tiled_u) = Undecorated"

subsection \<open>The factory\<close>

definition Create :: "toolkit \<Rightarrow> bool \<Rightarrow> csd_style \<Rightarrow> layout" where
  "Create tk wants_shadow style =
     (if IsX11 tk \<or> IsTranslucent tk \<or> \<not> wants_shadow
      then LinuxUndecoratedFrameLayout False
      else if style = kCustom
      then LinuxCSDCustomFrameLayout (LinuxCSDBaseLayout_ctor tk)
      else LinuxCSDNativeFrameLayout (LinuxCSDBaseLayout_ctor tk))"

subsection \<open>Reading a rounded rectangle\<close>

text \<open>
  The corner radii of an \<^verbatim>\<open>SkRRect\<close>, in Skia's order: \<^verbatim>\<open>setRect\<close> leaves all four
  at zero, \<^verbatim>\<open>setRectRadii\<close> takes them from its argument.
\<close>

fun corner_radii :: "sk_rrect \<Rightarrow> sk_point list" where
  "corner_radii (setRect r) = [SkPoint_default, SkPoint_default, SkPoint_default, SkPoint_default]"
| "corner_radii (setRectRadii r upper_left upper_right lower_right lower_left) =
     [upper_left, upper_right, lower_right, lower_left]"

subsection \<open>Calls on a layout object\<close>

text \<open>
  The public interface of \<^verbatim>\<open>LinuxFrameLayout\<close> as one step function: a call takes the
  object and gives the answer and the object afterwards. Every member function but
  \<^verbatim>\<open>set_tiled\<close> is declared \<^verbatim>\<open>const\<close> and no data member is \<^verbatim>\<open>mutable\<close>.
\<close>

datatype member_call =
    call_RestoredFrameBorderInsets
  | call_GetInputInsets
  | call_GetResizeBorderInsets
  | call_IsShowingShadow
  | call_SupportsClientFrameShadow
  | call_tiled
  | call_set_tiled bool
  | call_GetWindowBounds
  | call_GetRoundedWindowBounds
  | call_GetTranslucentTopAreaHeight

datatype answer =
    insets_answer "error + insets"
  | bool_answer bool
  | rect_answer "error + rect"
  | rrect_answer "error + sk_rrect"
  | int_answer int
  | void_answer

fun call :: "toolkit \<Rightarrow> member_call \<Rightarrow> layout \<Rightarrow> answer \<times> layout" where
  "call tk call_RestoredFrameBorderInsets this =
     (insets_answer (RestoredFrameBorderInsets tk this), this)"
| "call tk call_GetInputInsets this = (insets_answer (Inr (GetInputInsets tk this)), this)"
| "call tk call_GetResizeBorderInsets this = (insets_answer (GetResizeBorderInsets tk this), this)"
| "call tk call_IsShowingShadow this = (bool_answer (IsShowingShadow tk this), this)"
| "call tk call_SupportsClientFrameShadow this =
     (bool_answer (SupportsClientFrameShadow tk this), this)"
| "call tk call_tiled this = (bool_answer (tiled this), this)"
| "call tk (call_set_tiled b) this = (void_answer, set_tiled b this)"
| "call tk call_GetWindowBounds this = (rect_answer (GetWindowBounds tk this), this)"
| "call tk call_GetRoundedWindowBounds this = (rrect_answer (GetRoundedWindowBounds tk this), this)"
| "call tk call_GetTranslucentTopAreaHeight this =
     (int_answer (GetTranslucentTopAreaHeight tk this), this)"

fun host_flag :: "layout \<Rightarrow> bool option" where
  \<comment> \<open>the member \<^verbatim>\<open>host_supports_client_frame_shadow_\<close>, where the class has it\<close>
  "host_flag (LinuxCSDNativeFrameLayout this) = Some (host_supports_client_frame_shadow_m this)"
| "host_flag (LinuxCSDCustomFrameLayout this) = Some (host_supports_client_frame_shadow_m this)"
| "host_flag (LinuxUndecoratedFrameLayout tiled_u) = None"

subsection \<open>Painting the restored frame border\<close>

text \<open>
  The canvas is the list of calls made on it, a \<^verbatim>\<open>gfx::ScopedCanvas\<close> being a save
  and the restore at the end of its scope. \<open>frame_background\<close> says whether the pointer
  of that name is non-null. The view's color provider is a pointer; its native theme is
  only handed on. The width handed to \<^verbatim>\<open>PaintMaximized\<close> is computed on unbounded
  \<open>int\<close>. \<^verbatim>\<open>SkColorSetA\<close> replaces the alpha byte of an ARGB color.
\<close>

datatype color_id = kColorFrameActive | kColorFrameInactive

record view =
  GetColorProvider :: "(color_id \<Rightarrow> sk_color) option"
  GetNativeTheme :: nat
  view_width :: int

definition kBorderAlpha :: sk_color where
  "kBorderAlpha = 0x26"

definition SK_ColorBLACK :: sk_color where
  "SK_ColorBLACK = 0xFF000000"

definition SK_ColorWHITE :: sk_color where
  "SK_ColorWHITE = 0xFFFFFFFF"

definition SkColorSetA :: "sk_color \<Rightarrow> sk_color \<Rightarrow> sk_color" where
  "SkColorSetA c a = (c AND 0x00FFFFFF) OR push_bit 24 a"

datatype clip_op = kIntersect | kDifference

datatype painted_rrect =
    unchanged sk_rrect
  | outset sk_scalar sk_scalar sk_rrect
  | inset sk_scalar sk_scalar sk_rrect

record paint_flags =
  flags_color :: sk_color
  flags_anti_alias :: bool
  flags_looper :: "shadow_value list option"

datatype canvas_call =
    canvas_save
  | canvas_restore
  | clipRRect painted_rrect clip_op bool
  | PaintMaximized nat "(color_id \<Rightarrow> sk_color) option" int int int
  | FillFrameBorders int int int
  | drawRRect painted_rrect paint_flags

definition PaintRestoredFrameBorderLinux ::
  "toolkit \<Rightarrow> view \<Rightarrow> bool \<Rightarrow> sk_rrect \<Rightarrow> bool \<Rightarrow> bool \<Rightarrow> insets \<Rightarrow> shadow_value list
     \<Rightarrow> bool \<Rightarrow> error + canvas_call list" where
  "PaintRestoredFrameBorderLinux tk view frame_background clip showing_shadow is_active border
       shadow_values tiled_arg =
     (let color_provider = GetColorProvider view;
          background =
            (if frame_background
             then (let shadow_inset = (if showing_shadow then border else Insets_default)
                   in [canvas_save,
                       clipRRect (unchanged clip) kIntersect True,
                       PaintMaximized (GetNativeTheme view) color_provider
                         (sint (left_in shadow_inset)) (sint (top_in shadow_inset))
                         (view_width view - insets_width shadow_inset)]
                      @ (if \<not> showing_shadow
                         then [FillFrameBorders (sint (left_in border)) (sint (right_in border))
                                 (sint (bottom_in border))]
                         else [])
                      @ [canvas_restore])
             else []);
          one_pixel = OneOverImageScale;
          outset_rect = (if tiled_arg then outset (SkIntToScalar 1) (SkIntToScalar 1) clip
                         else if showing_shadow then outset one_pixel one_pixel clip
                         else unchanged clip);
          inset_rect = (if tiled_arg then unchanged clip
                        else if showing_shadow then unchanged clip
                        else inset one_pixel one_pixel clip)
      in and_then (deref color_provider) (\<lambda>GetColor.
           let frame_color = GetColor (if is_active then kColorFrameActive
                                       else kColorFrameInactive);
               border_color = (if showing_shadow then SK_ColorBLACK
                               else PickContrastingColor tk SK_ColorBLACK SK_ColorWHITE
                                      frame_color);
               flags = \<lparr>flags_color = SkColorSetA border_color kBorderAlpha,
                        flags_anti_alias = True,
                        flags_looper = (if showing_shadow then Some shadow_values else None)\<rparr>
           in Inr (background
                   @ [canvas_save,
                      clipRRect inset_rect kDifference True,
                      drawRRect outset_rect flags,
                      canvas_restore])))"

subsection \<open>Histories of calls\<close>

text \<open>
  A layout lives through a series of calls, each made while the toolkit is in some state.
\<close>

fun run :: "(toolkit \<times> member_call) list \<Rightarrow> layout \<Rightarrow> layout" where
  "run [] this = this"
| "run ((tk, m) # calls) this = run calls (snd (call tk m this))"

text \<open>
  The flag of the last \<^verbatim>\<open>set_tiled\<close> of a history, if there is one.
\<close>

fun last_set_tiled :: "(toolkit \<times> member_call) list \<Rightarrow> bool option" where
  "last_set_tiled [] = None"
| "last_set_tiled ((tk, call_set_tiled b) # calls) =
     (case last_set_tiled calls of None \<Rightarrow> Some b | Some c \<Rightarrow> Some c)"
| "last_set_tiled ((tk, m) # calls) = last_set_tiled calls"

subsection \<open>The words of the claims\<close>

text \<open>
  The value the specification gives one side of the normalised insets: the larger of the
  frame side and the input side when the frame side is positive, and 0 otherwise.
\<close>

definition expanded_side :: "int \<Rightarrow> int \<Rightarrow> int" where
  "expanded_side frame_side input_side =
     (if frame_side > 0 then max frame_side input_side else 0)"

text \<open>Four square corners.\<close>

definition square_corners :: "sk_point list" where
  "square_corners = [SkPoint_default, SkPoint_default, SkPoint_default, SkPoint_default]"

subsection \<open>Sample toolkit states\<close>

definition sample_provider :: frame_provider where
  "sample_provider = \<lparr>GetFrameThicknessDip = TLBR 26 23 29 23, GetTopCornerRadiusDip = 8\<rparr>"

definition sample_shadows :: "int \<Rightarrow> shadow_value list" where
  "sample_shadows elevation =
     [\<lparr>blur = of_int (4 * elevation), offset_x = 0, offset_y = elevation\<rparr>,
      \<lparr>blur = of_int (2 * elevation), offset_x = 0, offset_y = 0\<rparr>]"

definition wayland_toolkit :: toolkit where
  "wayland_toolkit =
     \<lparr>IsX11 = False, IsRTL = False, IsTranslucent = False, IsMaximized = False,
      IsFullscreen = False, tree_host = Some True,
      widget = Some \<lparr>rect_x = 0, rect_y = 0, rect_width = 800, rect_height = 600\<rparr>,
      linux_ui_theme = Some (\<lambda>solid_frame tiled maximized. Some sample_provider),
      layout_provider = Some (\<lambda>e. case e of kMaximum \<Rightarrow> 16 | kMedium \<Rightarrow> 8),
      MakeMdShadowValues = sample_shadows,
      PickContrastingColor = (\<lambda>foreground1 foreground2 background. foreground2)\<rparr>"

definition sample_view :: view where
  "sample_view =
     \<lparr>GetColorProvider = Some (\<lambda>id. case id of kColorFrameActive \<Rightarrow> 0xFF202020
                                              | kColorFrameInactive \<Rightarrow> 0xFF404040),
      GetNativeTheme = 1, view_width = 800\<rparr>"

section \<open>Properties\<close>

subsection \<open>Saturating insets\<close>

lemma sint_int32_bounds: "INT_MIN \<le> sint (a::int32)" "sint a \<le> INT_MAX"
  using sint_ge [of a] sint_lt [of a] by (simp_all add: INT_MIN_def INT_MAX_def)

lemma sint_saturated_cast: "sint (saturated_cast k) = max INT_MIN (min INT_MAX k)"
  by (simp add: saturated_cast_def INT_MAX_def INT_MIN_def signed_of_int
      signed_take_bit_int_eq_self_iff)

lemma sint_ClampBottomOrRight:
  "sint (ClampBottomOrRight a b) = max INT_MIN (min INT_MAX (sint a + sint b)) - sint a"
proof -
  have "sint (ClampBottomOrRight a b)
        = signed_take_bit 31 (max INT_MIN (min INT_MAX (sint a + sint b)) - sint a)"
    by (simp add: ClampBottomOrRight_def ClampAdd_def sint_word_ariths sint_saturated_cast)
  also have "\<dots> = max INT_MIN (min INT_MAX (sint a + sint b)) - sint a"
    using sint_int32_bounds [of a] sint_int32_bounds [of b]
    by (intro signed_take_bit_int_eq_self) (auto simp: INT_MIN_def INT_MAX_def)
  finally show ?thesis .
qed

lemma ClampBottomOrRight_0: "ClampBottomOrRight a 0 = 0"
proof -
  have "sint (ClampBottomOrRight a 0) = 0"
    using sint_int32_bounds [of a] by (simp add: sint_ClampBottomOrRight)
  then show ?thesis by (simp add: signed_eq_0_iff)
qed

lemma sint_ClampBottomOrRight_nonneg:
  assumes "0 \<le> sint a" and "0 \<le> sint b"
  shows "sint (ClampBottomOrRight a b) = min (sint b) (INT_MAX - sint a)"
  using assms by (auto simp: sint_ClampBottomOrRight INT_MIN_def INT_MAX_def)

lemma TLBR_members:
  "TLBR t l b r = Insets_members t l (ClampBottomOrRight t b) (ClampBottomOrRight l r)"
  by (simp add: TLBR_def set_top_def set_left_def set_bottom_def set_right_def
      Insets_default_def ClampBottomOrRight_0)

lemma Insets_all_TLBR: "Insets_all n = TLBR n n n n"
  by (simp add: Insets_all_def TLBR_members)

lemma sint_expand_if_visible:
  "sint (expand_if_visible a b) = expanded_side (sint a) (sint b)"
  by (simp add: expand_if_visible_def std_max_def expanded_side_def)

lemma expanded_side_range: "0 \<le> expanded_side a b"
  by (auto simp: expanded_side_def)

lemma NormalizeBorderInsets_members:
  "NormalizeBorderInsets tk f i =
     (let et = expand_if_visible (top_in f) (top_in i);
          el = expand_if_visible (left_in f) (left_in i);
          eb = expand_if_visible (bottom_in f) (bottom_in i);
          er = expand_if_visible (right_in f) (right_in i)
      in if IsRTL tk
         then Insets_members et (ClampBottomOrRight el er)
                (ClampBottomOrRight et (ClampBottomOrRight et eb))
                (ClampBottomOrRight (ClampBottomOrRight el er) el)
         else Insets_members et el (ClampBottomOrRight et eb) (ClampBottomOrRight el er))"
  by (simp add: NormalizeBorderInsets_def Insets_default_def set_top_def set_left_def
      set_bottom_def set_right_def TLBR_members ClampBottomOrRight_0 Let_def)

lemma NormalizeBorderInsets_sint:
  "sint (top_in (NormalizeBorderInsets tk f i))
     = expanded_side (sint (top_in f)) (sint (top_in i))
   \<and> sint (bottom_in (NormalizeBorderInsets tk f i))
     = min (expanded_side (sint (bottom_in f)) (sint (bottom_in i)))
         (INT_MAX - expanded_side (sint (top_in f)) (sint (top_in i)))
   \<and> sint (left_in (NormalizeBorderInsets tk f i))
     = (if IsRTL tk
        then min (expanded_side (sint (right_in f)) (sint (right_in i)))
               (INT_MAX - expanded_side (sint (left_in f)) (sint (left_in i)))
        else expanded_side (sint (left_in f)) (sint (left_in i)))
   \<and> sint (right_in (NormalizeBorderInsets tk f i))
     = (if IsRTL tk
        then expanded_side (sint (left_in f)) (sint (left_in i))
        else min (expanded_side (sint (right_in f)) (sint (right_in i)))
               (INT_MAX - expanded_side (sint (left_in f)) (sint (left_in i))))"
proof -
  define et where "et = expand_if_visible (top_in f) (top_in i)"
  define el where "el = expand_if_visible (left_in f) (left_in i)"
  define eb where "eb = expand_if_visible (bottom_in f) (bottom_in i)"
  define er where "er = expand_if_visible (right_in f) (right_in i)"
  note defs = et_def el_def eb_def er_def
  have nn: "0 \<le> sint et" "0 \<le> sint el" "0 \<le> sint eb" "0 \<le> sint er"
    by (simp_all add: defs sint_expand_if_visible expanded_side_range)
  have up: "sint el \<le> INT_MAX" "sint et \<le> INT_MAX"
    by (rule sint_int32_bounds)+
  have b1: "sint (ClampBottomOrRight et eb) = min (sint eb) (INT_MAX - sint et)"
    and r1: "sint (ClampBottomOrRight el er) = min (sint er) (INT_MAX - sint el)"
    using nn by (simp_all add: sint_ClampBottomOrRight_nonneg)
  have nn1: "0 \<le> sint (ClampBottomOrRight et eb)" "0 \<le> sint (ClampBottomOrRight el er)"
    using nn up by (simp_all add: b1 r1)
  have b2: "sint (ClampBottomOrRight et (ClampBottomOrRight et eb))
            = min (sint eb) (INT_MAX - sint et)"
    using nn nn1 by (simp add: sint_ClampBottomOrRight_nonneg b1)
  have r2: "sint (ClampBottomOrRight (ClampBottomOrRight el er) el) = sint el"
    using nn nn1 by (simp add: sint_ClampBottomOrRight_nonneg r1)
  show ?thesis
    using b1 r1 b2 r2
    by (simp add: NormalizeBorderInsets_members Let_def defs sint_expand_if_visible)
qed

lemma nonneg_NormalizeBorderInsets: "nonneg_insets (NormalizeBorderInsets tk f i)"
  using sint_int32_bounds(2) [of "expand_if_visible (left_in f) (left_in i)"]
    sint_int32_bounds(2) [of "expand_if_visible (top_in f) (top_in i)"]
  by (simp add: nonneg_insets_def NormalizeBorderInsets_sint expanded_side_range
      sint_expand_if_visible)

lemma IsEmpty_nonneg:
  assumes "nonneg_insets i"
  shows "IsEmpty i = (i = TLBR 0 0 0 0)"
proof -
  have "TLBR 0 0 0 0 = Insets_members 0 0 0 0"
    by (simp add: TLBR_members ClampBottomOrRight_0)
  moreover have "IsEmpty i = (i = Insets_members 0 0 0 0)"
  proof (cases i)
    case (Insets_members t l b r)
    have "(sint l + sint r = 0 \<and> sint t + sint b = 0)
          = (sint t = 0 \<and> sint l = 0 \<and> sint b = 0 \<and> sint r = 0)"
      using assms Insets_members by (auto simp: nonneg_insets_def)
    with Insets_members show ?thesis
      by (auto simp: IsEmpty_def insets_width_def insets_height_def signed_eq_0_iff)
  qed
  ultimately show ?thesis by simp
qed

subsection \<open>Auxiliary facts\<close>

lemma and_then_Inr_iff:
  "and_then r f = Inr v \<longleftrightarrow> (\<exists>u. r = Inr u \<and> f u = Inr v)"
  by (cases r) (simp_all add: and_then_def)

lemma deref_Inl_iff: "(deref p = Inl NullPointerDereference) = (p = None)"
  by (cases p) (simp_all add: deref_def)

lemma nonneg_native:
  "LinuxCSDNativeFrameLayout_RestoredFrameBorderInsets tk this = Inr i \<Longrightarrow> nonneg_insets i"
  by (auto simp: LinuxCSDNativeFrameLayout_RestoredFrameBorderInsets_def Let_def
      and_then_Inr_iff nonneg_NormalizeBorderInsets)

lemma nonneg_custom:
  "LinuxCSDCustomFrameLayout_RestoredFrameBorderInsets tk this = Inr i \<Longrightarrow> nonneg_insets i"
  by (auto simp: LinuxCSDCustomFrameLayout_RestoredFrameBorderInsets_def Let_def
      and_then_Inr_iff nonneg_NormalizeBorderInsets split: if_splits)

lemma nonneg_RestoredFrameBorderInsets:
  assumes "RestoredFrameBorderInsets tk l = Inr i"
  shows "nonneg_insets i"
proof (cases l)
  case (LinuxCSDNativeFrameLayout this)
  with assms show ?thesis by (simp add: nonneg_native)
next
  case (LinuxCSDCustomFrameLayout this)
  with assms show ?thesis by (simp add: nonneg_custom)
next
  case (LinuxUndecoratedFrameLayout tiled_u)
  with assms show ?thesis by (auto simp: Insets_default_def nonneg_insets_def)
qed

lemma set_tiled_laws:
  "tiled (set_tiled b l) = b" "dynamic_class (set_tiled b l) = dynamic_class l"
  "host_flag (set_tiled b l) = host_flag l" "set_tiled (tiled l) l = l"
  "set_tiled b (set_tiled c l) = set_tiled b l"
  by (cases l; simp)+

lemma call_keeps_class_and_flag:
  "dynamic_class (snd (call tk m l)) = dynamic_class l
   \<and> host_flag (snd (call tk m l)) = host_flag l"
  by (cases m) (simp_all add: set_tiled_laws)

lemma run_keeps_class_and_flag:
  "dynamic_class (run h l) = dynamic_class l \<and> host_flag (run h l) = host_flag l"
proof (induction h arbitrary: l)
  case Nil
  show ?case by simp
next
  case (Cons c h)
  obtain tk m where "c = (tk, m)" by (cases c)
  with Cons show ?case by (simp add: call_keeps_class_and_flag)
qed

lemma layout_eqI:
  assumes "dynamic_class a = dynamic_class b" and "host_flag a = host_flag b"
    and "tiled a = tiled b"
  shows "a = b"
  using assms by (cases a; cases b) simp_all

lemma Create_class_and_flag:
  "dynamic_class (Create tk0 w s) \<noteq> Undecorated
     \<Longrightarrow> host_flag (Create tk0 w s) = Some (LinuxCSDBaseLayout_SupportsClientFrameShadow tk0)"
  by (auto simp: Create_def LinuxCSDBaseLayout_ctor_def split: if_splits)

lemma IsShowingShadow_by_flag:
  "IsShowingShadow tk l = (host_flag l = Some True \<and> \<not> IsMaximized tk \<and> \<not> IsFullscreen tk)"
  by (cases l) (auto simp: LinuxCSDBaseLayout_IsShowingShadow_def)

lemma SupportsClientFrameShadow_tree_host:
  "LinuxCSDBaseLayout_SupportsClientFrameShadow tk = (tree_host tk = Some True)"
  by (simp add: LinuxCSDBaseLayout_SupportsClientFrameShadow_def split: option.splits)

lemma IsShowingShadow_Create:
  "IsShowingShadow tk (run h (Create tk0 wants_shadow style))
   = (\<not> (IsX11 tk0 \<or> IsTranslucent tk0 \<or> \<not> wants_shadow)
      \<and> LinuxCSDBaseLayout_SupportsClientFrameShadow tk0
      \<and> \<not> IsMaximized tk \<and> \<not> IsFullscreen tk)"
proof -
  let ?l = "Create tk0 wants_shadow style"
  have flag: "host_flag (run h ?l) = host_flag ?l"
    by (simp add: run_keeps_class_and_flag)
  show ?thesis
  proof (cases "IsX11 tk0 \<or> IsTranslucent tk0 \<or> \<not> wants_shadow")
    case True
    then have "host_flag ?l = None"
      by (auto simp: Create_def)
    with flag True show ?thesis
      by (simp add: IsShowingShadow_by_flag)
  next
    case False
    then have "dynamic_class ?l \<noteq> Undecorated"
      by (auto simp: Create_def)
    then have "host_flag ?l = Some (LinuxCSDBaseLayout_SupportsClientFrameShadow tk0)"
      by (rule Create_class_and_flag)
    with flag False show ?thesis
      by (simp add: IsShowingShadow_by_flag)
  qed
qed

lemma run_last_set_tiled:
  "run h l = (case last_set_tiled h of None \<Rightarrow> l | Some b \<Rightarrow> set_tiled b l)"
proof (induction h arbitrary: l)
  case Nil
  show ?case by simp
next
  case (Cons c h)
  obtain tk m where c: "c = (tk, m)" by (cases c)
  show ?case
  proof (cases m)
    case (call_set_tiled b)
    with c Cons show ?thesis
      by (simp add: set_tiled_laws split: option.splits)
  qed (use c Cons in simp_all)
qed

subsection \<open>The custom frame on the sample toolkit\<close>

lemma ClampBottomOrRight_in_range:
  assumes "INT_MIN \<le> sint a + sint b" and "sint a + sint b \<le> INT_MAX"
  shows "ClampBottomOrRight a b = b"
proof -
  have "sint (ClampBottomOrRight a b) = sint b"
    using assms by (simp add: sint_ClampBottomOrRight)
  then show ?thesis by (rule signed_word_eqI)
qed

lemma ClampBottomOrRight_samples: "ClampBottomOrRight 10 10 = 10" "ClampBottomOrRight (- 10) (- 10) = - 10"
  "ClampBottomOrRight 10 32 = 32" "ClampBottomOrRight 16 16 = 16"
  "ClampBottomOrRight 5 5 = 5" "ClampBottomOrRight 1 1 = 1" "ClampBottomOrRight 2 1 = 1"
  "ClampBottomOrRight 0 1 = 1"  "ClampBottomOrRight 26 29 = 29" "ClampBottomOrRight 23 23 = 23"
  by (rule ClampBottomOrRight_in_range; simp add: INT_MIN_def INT_MAX_def)+

lemma saturated_cast_samples: "saturated_cast 10 = 10" "saturated_cast (- 10) = - 10" "saturated_cast 16 = 16" "saturated_cast 32 = 32"
  by (simp_all add: saturated_cast_def INT_MIN_def INT_MAX_def)

lemma sample_input_extents: "Rect_Inset Rect_default (negate (Insets_members 10 10 10 10)) = \<lparr>rect_x = -10, rect_y = -10, rect_width = 20, rect_height = 20\<rparr>"
  by (simp add: negate_def Rect_Inset_def Rect_default_def TLBR_members saturated_cast_samples ClampBottomOrRight_samples insets_width_def insets_height_def)

lemma sample_shadow_extents:
  "foldl shadow_step Rect_default (sample_shadows 16)
   = \<lparr>rect_x = -16, rect_y = -8, rect_width = 32, rect_height = 40\<rparr>"
  by (simp add: sample_shadows_def shadow_step_def RectF_Inset_all_def RectF_default_def
      ToEnclosingRect_def SetByBounds_def Rect_Union_def rect_IsEmpty_def Rect_default_def
      rect_right_def rect_bottom_def Let_def)

lemma NormalizeBorderInsets_samples: "NormalizeBorderInsets wayland_toolkit (Insets_members 10 16 32 16) (Insets_members 10 10 10 10) = Insets_members 10 16 32 16"
  "NormalizeBorderInsets wayland_toolkit (Insets_members 10 10 10 10) (Insets_members 10 10 10 10) = Insets_members 10 10 10 10"
  by (simp_all add: NormalizeBorderInsets_members expand_if_visible_def std_max_def ClampBottomOrRight_samples wayland_toolkit_def)

lemma sample_custom_insets:
  "RestoredFrameBorderInsets wayland_toolkit (Create wayland_toolkit True kCustom)
   = Inr (Insets_members 10 16 32 16)"
proof -
  have sh: "LinuxCSDBaseLayout_IsShowingShadow wayland_toolkit (LinuxCSDBaseLayout_ctor wayland_toolkit)"
    by (simp add: wayland_toolkit_def LinuxCSDBaseLayout_ctor_def LinuxCSDBaseLayout_IsShowingShadow_def LinuxCSDBaseLayout_SupportsClientFrameShadow_def)
  have ti: "\<not> tiled_m (LinuxCSDBaseLayout_ctor wayland_toolkit)"
    by (simp add: LinuxCSDBaseLayout_ctor_def)
  have input: "LinuxCSDBaseLayout_GetInputInsets wayland_toolkit (LinuxCSDBaseLayout_ctor wayland_toolkit) = Insets_members 10 10 10 10"
    using sh by (simp add: LinuxCSDBaseLayout_GetInputInsets_def Insets_all_TLBR TLBR_members kResizeBorder_def ClampBottomOrRight_samples)
  have sv: "GetFrameShadowValuesLinux wayland_toolkit True = Inr (sample_shadows 16)"
    by (simp add: GetFrameShadowValuesLinux_def wayland_toolkit_def and_then_def deref_def)
  have un: "Rect_Union \<lparr>rect_x = -16, rect_y = -8, rect_width = 32, rect_height = 40\<rparr> \<lparr>rect_x = -10, rect_y = -10, rect_width = 20, rect_height = 20\<rparr> = \<lparr>rect_x = -16, rect_y = -10, rect_width = 32, rect_height = 42\<rparr>"
    by (simp add: Rect_Union_def rect_IsEmpty_def SetByBounds_def rect_right_def rect_bottom_def)
  have cr: "Create wayland_toolkit True kCustom = LinuxCSDCustomFrameLayout (LinuxCSDBaseLayout_ctor wayland_toolkit)"
    by (simp add: Create_def wayland_toolkit_def)
  show ?thesis 
    using sh ti
    by (simp add: cr LinuxCSDCustomFrameLayout_RestoredFrameBorderInsets_def input sv
       sample_shadow_extents sample_input_extents un and_then_def rect_bottom_def rect_right_def saturated_cast_samples TLBR_members ClampBottomOrRight_samples NormalizeBorderInsets_samples Let_def)
qed

lemma sample_custom_insets_tiled:
  "RestoredFrameBorderInsets wayland_toolkit
     (set_tiled True (Create wayland_toolkit True kCustom))
   = Inr (Insets_members 10 10 10 10)"
proof -
  let ?csd = "(LinuxCSDBaseLayout_ctor wayland_toolkit)\<lparr>tiled_m := True\<rparr>"
  have sh: "LinuxCSDBaseLayout_IsShowingShadow wayland_toolkit ?csd"
    by (simp add: wayland_toolkit_def LinuxCSDBaseLayout_ctor_def
        LinuxCSDBaseLayout_IsShowingShadow_def LinuxCSDBaseLayout_SupportsClientFrameShadow_def)
  have input: "LinuxCSDBaseLayout_GetInputInsets wayland_toolkit ?csd
               = Insets_members 10 10 10 10"
    using sh by (simp add: LinuxCSDBaseLayout_GetInputInsets_def Insets_all_TLBR TLBR_members
        kResizeBorder_def ClampBottomOrRight_samples)
  have un: "Rect_Union Rect_default
              \<lparr>rect_x = -10, rect_y = -10, rect_width = 20, rect_height = 20\<rparr>
            = \<lparr>rect_x = -10, rect_y = -10, rect_width = 20, rect_height = 20\<rparr>"
    by (simp add: Rect_Union_def rect_IsEmpty_def Rect_default_def)
  have cr: "set_tiled True (Create wayland_toolkit True kCustom)
            = LinuxCSDCustomFrameLayout ?csd"
    by (simp add: Create_def wayland_toolkit_def)
  show ?thesis
    using sh
    by (simp add: cr LinuxCSDCustomFrameLayout_RestoredFrameBorderInsets_def input
        sample_input_extents un and_then_def rect_bottom_def rect_right_def
        saturated_cast_samples TLBR_members ClampBottomOrRight_samples
        NormalizeBorderInsets_samples Let_def)
qed

subsection \<open>The factory's choice\<close>

text \<open>
  C1. \<^verbatim>\<open>LinuxFrameLayout::Create\<close> returns the undecorated layout exactly when the
  display server is X11, or the window is translucent, or \<^verbatim>\<open>wants_shadow\<close> is false;
  otherwise the custom-frame layout when the style is \<^verbatim>\<open>kCustom\<close> and the native-frame
  layout in every remaining case.
\<close>

theorem Create_selects_strategy:
  "(dynamic_class (Create tk wants_shadow style) = Undecorated)
     = (IsX11 tk \<or> IsTranslucent tk \<or> \<not> wants_shadow)
   \<and> (dynamic_class (Create tk wants_shadow style) = CustomFrame)
     = (\<not> (IsX11 tk \<or> IsTranslucent tk \<or> \<not> wants_shadow) \<and> style = kCustom)
   \<and> (dynamic_class (Create tk wants_shadow style) = NativeFrame)
     = (\<not> (IsX11 tk \<or> IsTranslucent tk \<or> \<not> wants_shadow) \<and> style = kNativeFrame)"
  by (cases style) (simp_all add: Create_def)

subsection \<open>The undecorated layout\<close>

text \<open>
  C3. \<^verbatim>\<open>LinuxUndecoratedFrameLayout::RestoredFrameBorderInsets\<close> answers zero insets,
  all four sides zero, whatever the window state (maximized, fullscreen, tiled or not) and
  whatever the toolkit holds.
\<close>

theorem Undecorated_RestoredFrameBorderInsets_zero:
  "RestoredFrameBorderInsets tk (LinuxUndecoratedFrameLayout tiled_u) = Inr (TLBR 0 0 0 0)"
  by (simp add: Insets_default_def TLBR_members ClampBottomOrRight_0)

text \<open>
  C10. For the undecorated layout \<^verbatim>\<open>GetInputInsets\<close> is a uniform 5-pixel inset, and so
  is \<^verbatim>\<open>GetResizeBorderInsets\<close>, in every window state, although the restored-frame
  insets are zero; \<^verbatim>\<open>GetTranslucentTopAreaHeight\<close> is 0 for every strategy.
\<close>

theorem Undecorated_insets_and_top_area:
  "GetInputInsets tk (LinuxUndecoratedFrameLayout tiled_u) = TLBR 5 5 5 5
   \<and> GetResizeBorderInsets tk (LinuxUndecoratedFrameLayout tiled_u) = Inr (TLBR 5 5 5 5)
   \<and> RestoredFrameBorderInsets tk (LinuxUndecoratedFrameLayout tiled_u) = Inr (TLBR 0 0 0 0)
   \<and> GetTranslucentTopAreaHeight tk l = 0"
proof -
  have "GetTranslucentTopAreaHeight tk l = 0"
    by (cases l) simp_all
  moreover have "IsEmpty Insets_default"
    by (simp add: IsEmpty_def Insets_default_def insets_width_def insets_height_def)
  ultimately show ?thesis
    by (simp add: GetResizeBorderInsets_def and_then_def Insets_all_TLBR
        kResizeInsideBoundsSize_def Insets_default_def TLBR_members ClampBottomOrRight_0)
qed

subsection \<open>Shadows and input insets\<close>

text \<open>
  C4, as stated: for the CSD layouts \<^verbatim>\<open>IsShowingShadow\<close> is true exactly when the host
  supports client-frame shadows and the window is neither maximized nor fullscreen. A
  native-frame layout constructed while the window had no tree host shows no shadow later,
  although by then the host supports client-frame shadows and the window is neither
  maximized nor fullscreen.
\<close>

theorem IsShowingShadow_host_counterexample:
  "SupportsClientFrameShadow wayland_toolkit
     (LinuxCSDNativeFrameLayout (LinuxCSDBaseLayout_ctor (wayland_toolkit\<lparr>tree_host := None\<rparr>)))
     = True
   \<and> IsMaximized wayland_toolkit = False
   \<and> IsFullscreen wayland_toolkit = False
   \<and> IsShowingShadow wayland_toolkit
       (LinuxCSDNativeFrameLayout (LinuxCSDBaseLayout_ctor (wayland_toolkit\<lparr>tree_host := None\<rparr>)))
     = False"
  by (simp add: wayland_toolkit_def LinuxCSDBaseLayout_ctor_def
      LinuxCSDBaseLayout_SupportsClientFrameShadow_def LinuxCSDBaseLayout_IsShowingShadow_def)

text \<open>
  C4, amended: for both CSD layouts \<^verbatim>\<open>IsShowingShadow\<close> is true exactly when the host
  supported client-frame shadows at the time the layout was constructed, that is the
  window's tree host was there and answered true, and the window is neither maximized nor
  fullscreen at the time of the call, whatever has been called on the layout in between;
  \<^verbatim>\<open>GetInputInsets\<close> is a uniform 10-pixel inset when \<^verbatim>\<open>IsShowingShadow\<close> is true and
  zero insets otherwise; for the undecorated layout \<^verbatim>\<open>IsShowingShadow\<close> is always false.
\<close>

theorem IsShowingShadow_and_input_insets:
  "IsShowingShadow tk (run h (LinuxCSDNativeFrameLayout (LinuxCSDBaseLayout_ctor tk0)))
     = (tree_host tk0 = Some True \<and> \<not> IsMaximized tk \<and> \<not> IsFullscreen tk)
   \<and> IsShowingShadow tk (run h (LinuxCSDCustomFrameLayout (LinuxCSDBaseLayout_ctor tk0)))
     = (tree_host tk0 = Some True \<and> \<not> IsMaximized tk \<and> \<not> IsFullscreen tk)
   \<and> IsShowingShadow tk (run h (Create tk0 wants_shadow style))
     = (\<not> (IsX11 tk0 \<or> IsTranslucent tk0 \<or> \<not> wants_shadow)
        \<and> tree_host tk0 = Some True \<and> \<not> IsMaximized tk \<and> \<not> IsFullscreen tk)
   \<and> GetInputInsets tk (LinuxCSDNativeFrameLayout this)
     = (if IsShowingShadow tk (LinuxCSDNativeFrameLayout this) then TLBR 10 10 10 10
        else TLBR 0 0 0 0)
   \<and> GetInputInsets tk (LinuxCSDCustomFrameLayout this)
     = (if IsShowingShadow tk (LinuxCSDCustomFrameLayout this) then TLBR 10 10 10 10
        else TLBR 0 0 0 0)
   \<and> IsShowingShadow tk (LinuxUndecoratedFrameLayout tiled_u) = False"
proof -
  have flag: "host_flag (run h (LinuxCSDNativeFrameLayout (LinuxCSDBaseLayout_ctor tk0)))
              = Some (tree_host tk0 = Some True)"
    "host_flag (run h (LinuxCSDCustomFrameLayout (LinuxCSDBaseLayout_ctor tk0)))
              = Some (tree_host tk0 = Some True)"
    by (simp_all add: run_keeps_class_and_flag LinuxCSDBaseLayout_ctor_def
        SupportsClientFrameShadow_tree_host)
  have "GetInputInsets tk (LinuxCSDNativeFrameLayout this)
     = (if IsShowingShadow tk (LinuxCSDNativeFrameLayout this) then TLBR 10 10 10 10
        else TLBR 0 0 0 0)"
    "GetInputInsets tk (LinuxCSDCustomFrameLayout this)
     = (if IsShowingShadow tk (LinuxCSDCustomFrameLayout this) then TLBR 10 10 10 10
        else TLBR 0 0 0 0)"
    by (simp_all add: LinuxCSDBaseLayout_GetInputInsets_def Insets_all_TLBR kResizeBorder_def
        Let_def)
  with flag show ?thesis
    by (simp add: IsShowingShadow_by_flag [of tk "run h l" for l] IsShowingShadow_Create
        SupportsClientFrameShadow_tree_host)
qed

subsection \<open>Resize border insets\<close>

text \<open>
  C9. For every layout strategy \<^verbatim>\<open>GetResizeBorderInsets\<close> answers
  \<^verbatim>\<open>RestoredFrameBorderInsets\<close> when those insets are not empty, and falls back to
  \<^verbatim>\<open>GetInputInsets\<close> exactly when they are empty, which for the insets a strategy
  produces is the same as all four sides being zero.
\<close>

theorem GetResizeBorderInsets_fallback:
  "GetResizeBorderInsets tk l =
     (case RestoredFrameBorderInsets tk l of
        Inl e \<Rightarrow> Inl e
      | Inr insets \<Rightarrow> Inr (if insets = TLBR 0 0 0 0 then GetInputInsets tk l else insets))"
proof (cases "RestoredFrameBorderInsets tk l")
  case (Inl e)
  then show ?thesis
    by (simp add: GetResizeBorderInsets_def and_then_def)
next
  case (Inr i)
  then have "IsEmpty i = (i = TLBR 0 0 0 0)"
    by (intro IsEmpty_nonneg nonneg_RestoredFrameBorderInsets)
  with Inr show ?thesis
    by (simp add: GetResizeBorderInsets_def and_then_def)
qed

subsection \<open>Normalising border insets\<close>

text \<open>
  C2, as stated: on each of the four sides the result is the larger of the frame side and
  the input side when the frame side is positive, and 0 otherwise. In a right-to-left UI
  the code exchanges left and right: with a frame inset of 5 on the left only, the left
  result is 0, not 5. And the insets class keeps the sum of opposite sides within a 32-bit
  integer: with a frame of 1, 1, 5, 5 and an input band of the largest integer at the top
  and left, the bottom result is 0, not 5.
\<close>

theorem NormalizeBorderInsets_rtl_counterexample:
  "sint (left_in (NormalizeBorderInsets (wayland_toolkit\<lparr>IsRTL := True\<rparr>)
                   (TLBR 0 5 0 0) (TLBR 0 0 0 0))) \<noteq> max 5 0
   \<and> sint (bottom_in (NormalizeBorderInsets wayland_toolkit
                   (TLBR 1 1 5 5) (TLBR 0x7FFFFFFF 0x7FFFFFFF 0 0))) \<noteq> max 5 0"
proof -
  have "TLBR 0 5 0 0 = Insets_members 0 5 0 0" "TLBR 1 1 5 5 = Insets_members 1 1 5 5"
    "TLBR 0 0 0 0 = Insets_members 0 0 0 0"
    "TLBR 0x7FFFFFFF 0x7FFFFFFF 0 0 = Insets_members 0x7FFFFFFF 0x7FFFFFFF 0 0"
    by (simp_all add: TLBR_members ClampBottomOrRight_0)
      (rule ClampBottomOrRight_in_range; simp add: INT_MIN_def INT_MAX_def)+
  then show ?thesis
    by (simp add: NormalizeBorderInsets_sint wayland_toolkit_def expanded_side_def INT_MAX_def)
qed

text \<open>
  C2, amended: the top result is the larger of the frame side and the input side when the
  frame side is positive and 0 otherwise. The bottom result is the value so computed for the
  bottom, lowered where needed so that top and bottom together do not exceed the largest
  32-bit integer. In a left-to-right UI the left result is the value so computed for the
  left and the right result the one for the right, lowered in the same way against the
  left. In a right-to-left UI the two are exchanged: the left result is what
  left-to-right gives on the right, and the right result what it gives on the left.
\<close>

theorem NormalizeBorderInsets_each_side:
  "sint (top_in (NormalizeBorderInsets tk f i))
     = expanded_side (sint (top_in f)) (sint (top_in i))
   \<and> sint (bottom_in (NormalizeBorderInsets tk f i))
     = min (expanded_side (sint (bottom_in f)) (sint (bottom_in i)))
         (INT_MAX - expanded_side (sint (top_in f)) (sint (top_in i)))
   \<and> sint (left_in (NormalizeBorderInsets tk f i))
     = (if IsRTL tk
        then min (expanded_side (sint (right_in f)) (sint (right_in i)))
               (INT_MAX - expanded_side (sint (left_in f)) (sint (left_in i)))
        else expanded_side (sint (left_in f)) (sint (left_in i)))
   \<and> sint (right_in (NormalizeBorderInsets tk f i))
     = (if IsRTL tk
        then expanded_side (sint (left_in f)) (sint (left_in i))
        else min (expanded_side (sint (right_in f)) (sint (right_in i)))
               (INT_MAX - expanded_side (sint (left_in f)) (sint (left_in i))))"
  by (rule NormalizeBorderInsets_sint)

subsection \<open>Rounded window bounds\<close>

text \<open>
  C5. \<^verbatim>\<open>GetRoundedWindowBounds\<close> rounds only the top corners, and only for the
  native-frame strategy when the window is not maximized: the two top corners get the
  frame provider's top corner radius and the two bottom corners zero. A maximized
  native-frame window, and the custom-frame and undecorated strategies in every state, get
  four square corners. The call answers whenever the widget and the objects the strategy's
  frame insets are made from are there, and dereferences a null pointer otherwise.
\<close>

theorem GetRoundedWindowBounds_corners:
  "map_sum id corner_radii (GetRoundedWindowBounds tk l) =
     (case widget tk of
        None \<Rightarrow> Inl NullPointerDereference
      | Some bounds \<Rightarrow>
          (case l of
             LinuxUndecoratedFrameLayout tiled_u \<Rightarrow> Inr square_corners
           | LinuxCSDCustomFrameLayout this \<Rightarrow>
               if LinuxCSDBaseLayout_IsShowingShadow tk this \<and> \<not> tiled_m this
                  \<and> layout_provider tk = None
               then Inl NullPointerDereference
               else Inr square_corners
           | LinuxCSDNativeFrameLayout this \<Rightarrow>
               (case linux_ui_theme tk of
                  None \<Rightarrow> Inl NullPointerDereference
                | Some GetWindowFrameProvider \<Rightarrow>
                    (case GetWindowFrameProvider (\<not> host_supports_client_frame_shadow_m this)
                            (tiled_m this) (IsMaximized tk) of
                       None \<Rightarrow> Inl NullPointerDereference
                     | Some provider \<Rightarrow>
                         Inr (if IsMaximized tk then square_corners
                              else [SkPoint (SkIntToScalar (GetTopCornerRadiusDip provider))
                                      (SkIntToScalar (GetTopCornerRadiusDip provider)),
                                    SkPoint (SkIntToScalar (GetTopCornerRadiusDip provider))
                                      (SkIntToScalar (GetTopCornerRadiusDip provider)),
                                    SkPoint (SkIntToScalar 0) (SkIntToScalar 0),
                                    SkPoint (SkIntToScalar 0) (SkIntToScalar 0)])))))"
proof (cases l)
  case (LinuxUndecoratedFrameLayout tiled_u)
  then show ?thesis
    by (simp add: and_then_def deref_def square_corners_def split: option.splits)
next
  case (LinuxCSDCustomFrameLayout this)
  then show ?thesis
    by (simp add: and_then_def deref_def square_corners_def Let_def
        LinuxCSDCustomFrameLayout_RestoredFrameBorderInsets_def GetFrameShadowValuesLinux_def
        split: option.splits)
next
  case (LinuxCSDNativeFrameLayout this)
  then show ?thesis
    by (simp add: and_then_def deref_def square_corners_def SkPoint_default_def Let_def
        LinuxCSDNativeFrameLayout_RestoredFrameBorderInsets_def GetFrameProvider_def
        split: option.splits)
qed

subsection \<open>The only mutable state\<close>

text \<open>
  C7, as stated: \<^verbatim>\<open>set_tiled(b)\<close> makes \<^verbatim>\<open>tiled()\<close> answer \<open>b\<close> and changes
  nothing else that can be observed. On the sample toolkit the custom-frame layout answers
  other restored frame insets after \<^verbatim>\<open>set_tiled(true)\<close> than before.
\<close>

theorem set_tiled_changes_insets_counterexample:
  "RestoredFrameBorderInsets wayland_toolkit
     (snd (call wayland_toolkit (call_set_tiled True) (Create wayland_toolkit True kCustom)))
   \<noteq> RestoredFrameBorderInsets wayland_toolkit (Create wayland_toolkit True kCustom)"
  by (simp add: sample_custom_insets sample_custom_insets_tiled)

text \<open>
  C7, amended: the tiled flag is the only mutable state of every strategy. After
  \<^verbatim>\<open>set_tiled(b)\<close>, \<^verbatim>\<open>tiled()\<close> answers \<open>b\<close> and no other member has changed:
  the object keeps its class and its host flag, and setting the flag to the value it has
  gives the same object back. \<^verbatim>\<open>IsShowingShadow\<close>, \<^verbatim>\<open>GetInputInsets\<close>,
  \<^verbatim>\<open>SupportsClientFrameShadow\<close> and \<^verbatim>\<open>GetTranslucentTopAreaHeight\<close> answer as
  before, and so does every query of the undecorated layout; the restored frame insets,
  resize insets, window bounds and rounded window bounds of the two CSD layouts are computed
  from the flag and may change with it. Every other call leaves the object as it was, so
  after any history of calls the object is the one at the start with the flag of the last
  \<^verbatim>\<open>set_tiled\<close>, or the very same when there was none.
\<close>

theorem tiled_only_mutable_state:
  "tiled (snd (call tk (call_set_tiled b) l)) = b
   \<and> dynamic_class (snd (call tk (call_set_tiled b) l)) = dynamic_class l
   \<and> host_flag (snd (call tk (call_set_tiled b) l)) = host_flag l
   \<and> snd (call tk (call_set_tiled (tiled l)) l) = l
   \<and> IsShowingShadow tk' (snd (call tk (call_set_tiled b) l)) = IsShowingShadow tk' l
   \<and> GetInputInsets tk' (snd (call tk (call_set_tiled b) l)) = GetInputInsets tk' l
   \<and> SupportsClientFrameShadow tk' (snd (call tk (call_set_tiled b) l))
       = SupportsClientFrameShadow tk' l
   \<and> GetTranslucentTopAreaHeight tk' (snd (call tk (call_set_tiled b) l))
       = GetTranslucentTopAreaHeight tk' l
   \<and> RestoredFrameBorderInsets tk'
         (snd (call tk (call_set_tiled b) (LinuxUndecoratedFrameLayout tiled_u)))
       = RestoredFrameBorderInsets tk' (LinuxUndecoratedFrameLayout tiled_u)
   \<and> GetResizeBorderInsets tk'
         (snd (call tk (call_set_tiled b) (LinuxUndecoratedFrameLayout tiled_u)))
       = GetResizeBorderInsets tk' (LinuxUndecoratedFrameLayout tiled_u)
   \<and> GetWindowBounds tk'
         (snd (call tk (call_set_tiled b) (LinuxUndecoratedFrameLayout tiled_u)))
       = GetWindowBounds tk' (LinuxUndecoratedFrameLayout tiled_u)
   \<and> GetRoundedWindowBounds tk'
         (snd (call tk (call_set_tiled b) (LinuxUndecoratedFrameLayout tiled_u)))
       = GetRoundedWindowBounds tk' (LinuxUndecoratedFrameLayout tiled_u)
   \<and> run h l = (case last_set_tiled h of None \<Rightarrow> l | Some v \<Rightarrow> set_tiled v l)
   \<and> tiled (run h l) = (case last_set_tiled h of None \<Rightarrow> tiled l | Some v \<Rightarrow> v)"
proof -
  have "IsShowingShadow tk' (set_tiled b l) = IsShowingShadow tk' l"
    "GetInputInsets tk' (set_tiled b l) = GetInputInsets tk' l"
    "SupportsClientFrameShadow tk' (set_tiled b l) = SupportsClientFrameShadow tk' l"
    "GetTranslucentTopAreaHeight tk' (set_tiled b l) = GetTranslucentTopAreaHeight tk' l"
    by (cases l; simp add: LinuxCSDBaseLayout_IsShowingShadow_def
        LinuxCSDBaseLayout_GetInputInsets_def)+
  moreover have "tiled (run h l) = (case last_set_tiled h of None \<Rightarrow> tiled l | Some v \<Rightarrow> v)"
    by (simp add: run_last_set_tiled set_tiled_laws split: option.splits)
  moreover have "GetResizeBorderInsets tk' (set_tiled b (LinuxUndecoratedFrameLayout tiled_u))
                 = GetResizeBorderInsets tk' (LinuxUndecoratedFrameLayout tiled_u)"
    by (simp add: GetResizeBorderInsets_def and_then_def cong: if_cong)
  moreover have "run h l = (case last_set_tiled h of None \<Rightarrow> l | Some v \<Rightarrow> set_tiled v l)"
    by (rule run_last_set_tiled)
  ultimately show ?thesis
    by (simp add: set_tiled_laws)
qed

subsection \<open>What a query depends on\<close>

text \<open>
  C8, as stated: the result of a query is computed from the toolkit state at the time
  of the call and the tiled flag alone, with nothing carried over from construction. Two
  native-frame layouts, both not tiled and both asked while the toolkit is in the same
  state, disagree on \<^verbatim>\<open>IsShowingShadow\<close> when one of them was constructed while the
  window had no tree host.
\<close>

theorem IsShowingShadow_construction_counterexample:
  "tiled (Create (wayland_toolkit\<lparr>tree_host := None\<rparr>) True kNativeFrame)
     = tiled (Create wayland_toolkit True kNativeFrame)
   \<and> IsShowingShadow wayland_toolkit
       (Create (wayland_toolkit\<lparr>tree_host := None\<rparr>) True kNativeFrame)
     \<noteq> IsShowingShadow wayland_toolkit (Create wayland_toolkit True kNativeFrame)"
  by (simp add: Create_def wayland_toolkit_def LinuxCSDBaseLayout_ctor_def
      LinuxCSDBaseLayout_SupportsClientFrameShadow_def LinuxCSDBaseLayout_IsShowingShadow_def)

text \<open>
  C8, amended: the answer of every call is computed at the call from the toolkit state
  at that time, the tiled flag, and the client-frame-shadow capability that the constructor
  of a CSD layout sampled once. So two calls on the same layout, after any two histories of
  calls, answer alike whenever the toolkit state and the tiled flag are the same at both;
  and \<^verbatim>\<open>IsShowingShadow\<close> of a layout made by \<^verbatim>\<open>Create\<close> combines the capability
  of the host at construction with the maximized and fullscreen state at the call.
\<close>

theorem queries_depend_on_toolkit_tiled_and_construction:
  assumes "tiled (run h1 l) = tiled (run h2 l)"
  shows "fst (call tk m (run h1 l)) = fst (call tk m (run h2 l))
   \<and> IsShowingShadow tk (run h1 (Create tk0 wants_shadow style))
       = (\<not> (IsX11 tk0 \<or> IsTranslucent tk0 \<or> \<not> wants_shadow)
          \<and> LinuxCSDBaseLayout_SupportsClientFrameShadow tk0
          \<and> \<not> IsMaximized tk \<and> \<not> IsFullscreen tk)"
proof
  have "run h1 l = run h2 l"
    using assms by (intro layout_eqI) (simp_all add: run_keeps_class_and_flag)
  then show "fst (call tk m (run h1 l)) = fst (call tk m (run h2 l))"
    by simp
next
  show "IsShowingShadow tk (run h1 (Create tk0 wants_shadow style))
       = (\<not> (IsX11 tk0 \<or> IsTranslucent tk0 \<or> \<not> wants_shadow)
          \<and> LinuxCSDBaseLayout_SupportsClientFrameShadow tk0
          \<and> \<not> IsMaximized tk \<and> \<not> IsFullscreen tk)"
    by (rule IsShowingShadow_Create)
qed

theorem queries_depend_on_toolkit_tiled_and_construction_witness:
  "tiled (run [(wayland_toolkit, call_set_tiled True),
               (wayland_toolkit\<lparr>IsMaximized := True\<rparr>, call_GetInputInsets),
               (wayland_toolkit\<lparr>tree_host := None\<rparr>, call_set_tiled False)]
            (Create wayland_toolkit True kCustom))
     = tiled (run [] (Create wayland_toolkit True kCustom))
   \<and> fst (call (wayland_toolkit\<lparr>tree_host := None\<rparr>) call_GetResizeBorderInsets
         (run [(wayland_toolkit, call_set_tiled True),
               (wayland_toolkit\<lparr>IsMaximized := True\<rparr>, call_GetInputInsets),
               (wayland_toolkit\<lparr>tree_host := None\<rparr>, call_set_tiled False)]
            (Create wayland_toolkit True kCustom)))
     = fst (call (wayland_toolkit\<lparr>tree_host := None\<rparr>) call_GetResizeBorderInsets
         (run [] (Create wayland_toolkit True kCustom)))
   \<and> IsShowingShadow (wayland_toolkit\<lparr>tree_host := None\<rparr>)
        (run [(wayland_toolkit, call_set_tiled True),
               (wayland_toolkit\<lparr>IsMaximized := True\<rparr>, call_GetInputInsets),
               (wayland_toolkit\<lparr>tree_host := None\<rparr>, call_set_tiled False)]
            (Create wayland_toolkit True kCustom))"
proof -
  have h: "tiled (run [(wayland_toolkit, call_set_tiled True),
               (wayland_toolkit\<lparr>IsMaximized := True\<rparr>, call_GetInputInsets),
               (wayland_toolkit\<lparr>tree_host := None\<rparr>, call_set_tiled False)]
            (Create wayland_toolkit True kCustom))
     = tiled (run [] (Create wayland_toolkit True kCustom))"
    by (simp add: Create_def wayland_toolkit_def LinuxCSDBaseLayout_ctor_def)
  show ?thesis
    using h queries_depend_on_toolkit_tiled_and_construction [OF h,
        of "wayland_toolkit\<lparr>tree_host := None\<rparr>" call_GetResizeBorderInsets
           wayland_toolkit True kCustom]
    by (simp add: wayland_toolkit_def LinuxCSDBaseLayout_SupportsClientFrameShadow_def)
qed

subsection \<open>Absent toolkit objects\<close>

text \<open>
  C6, as stated: no query reaches an error state when its toolkit collaborator is
  absent. With no Linux UI theme the native layout's \<^verbatim>\<open>RestoredFrameBorderInsets\<close>
  dereferences a null pointer, and so does the paint function with a view that has no color
  provider.
\<close>

theorem absent_collaborator_counterexample:
  "RestoredFrameBorderInsets (wayland_toolkit\<lparr>linux_ui_theme := None\<rparr>)
     (Create wayland_toolkit True kNativeFrame) = Inl NullPointerDereference
   \<and> PaintRestoredFrameBorderLinux wayland_toolkit (sample_view\<lparr>GetColorProvider := None\<rparr>)
       True (setRect (RectToSkRect Rect_default)) False True (TLBR 1 1 1 1) [] False
     = Inl NullPointerDereference"
  by (simp add: Create_def wayland_toolkit_def
      LinuxCSDNativeFrameLayout_RestoredFrameBorderInsets_def GetFrameProvider_def
      PaintRestoredFrameBorderLinux_def sample_view_def and_then_def deref_def Let_def)

text \<open>
  C6, amended: there is no error type and the tree host is the one collaborator that is
  checked. With the tree host absent \<^verbatim>\<open>SupportsClientFrameShadow\<close> answers false, and a
  layout created then never shows a shadow; the undecorated layout's insets never fail, and
  its window bounds fail exactly when the widget is absent. The native layout's
  \<^verbatim>\<open>RestoredFrameBorderInsets\<close> dereferences a null pointer exactly when the Linux UI
  theme, or the frame provider it hands out, is absent; the custom layout's exactly when it
  shows a shadow, is not tiled and there is no layout provider; the paint function exactly
  when the view has no color provider, whether or not there is a frame background.
\<close>

theorem absent_collaborators:
  "SupportsClientFrameShadow (tk\<lparr>tree_host := None\<rparr>) l = False
   \<and> IsShowingShadow tk (Create (tk0\<lparr>tree_host := None\<rparr>) wants_shadow style) = False
   \<and> RestoredFrameBorderInsets tk (LinuxUndecoratedFrameLayout tiled_u) = Inr (TLBR 0 0 0 0)
   \<and> GetResizeBorderInsets tk (LinuxUndecoratedFrameLayout tiled_u) = Inr (TLBR 5 5 5 5)
   \<and> (GetWindowBounds tk (LinuxUndecoratedFrameLayout tiled_u) = Inl NullPointerDereference)
       = (widget tk = None)
   \<and> (RestoredFrameBorderInsets tk (LinuxCSDNativeFrameLayout this) = Inl NullPointerDereference)
       = (case linux_ui_theme tk of
            None \<Rightarrow> True
          | Some GetWindowFrameProvider \<Rightarrow>
              GetWindowFrameProvider (\<not> host_supports_client_frame_shadow_m this) (tiled_m this)
                (IsMaximized tk) = None)
   \<and> (RestoredFrameBorderInsets tk (LinuxCSDCustomFrameLayout this) = Inl NullPointerDereference)
       = (IsShowingShadow tk (LinuxCSDCustomFrameLayout this) \<and> \<not> tiled_m this
          \<and> layout_provider tk = None)
   \<and> (PaintRestoredFrameBorderLinux tk view frame_background clip showing_shadow is_active
         border shadow_values tiled_arg = Inl NullPointerDereference)
       = (GetColorProvider view = None)"
proof -
  have "SupportsClientFrameShadow (tk\<lparr>tree_host := None\<rparr>) l = False"
    by (cases l) (simp_all add: LinuxCSDBaseLayout_SupportsClientFrameShadow_def)
  moreover have
    "IsShowingShadow tk (Create (tk0\<lparr>tree_host := None\<rparr>) wants_shadow style) = False"
    by (simp add: Create_def LinuxCSDBaseLayout_ctor_def
        LinuxCSDBaseLayout_SupportsClientFrameShadow_def LinuxCSDBaseLayout_IsShowingShadow_def)
  moreover have "IsEmpty Insets_default"
    by (simp add: IsEmpty_def Insets_default_def insets_width_def insets_height_def)
  then have
    "GetResizeBorderInsets tk (LinuxUndecoratedFrameLayout tiled_u) = Inr (TLBR 5 5 5 5)"
    by (simp add: GetResizeBorderInsets_def and_then_def Insets_all_TLBR
        kResizeInsideBoundsSize_def)
  moreover have
    "(RestoredFrameBorderInsets tk (LinuxCSDNativeFrameLayout this) = Inl NullPointerDereference)
       = (case linux_ui_theme tk of
            None \<Rightarrow> True
          | Some GetWindowFrameProvider \<Rightarrow>
              GetWindowFrameProvider (\<not> host_supports_client_frame_shadow_m this) (tiled_m this)
                (IsMaximized tk) = None)"
    by (simp add: LinuxCSDNativeFrameLayout_RestoredFrameBorderInsets_def GetFrameProvider_def
        and_then_def deref_def Let_def split: option.splits)
  moreover have
    "(RestoredFrameBorderInsets tk (LinuxCSDCustomFrameLayout this) = Inl NullPointerDereference)
       = (IsShowingShadow tk (LinuxCSDCustomFrameLayout this) \<and> \<not> tiled_m this
          \<and> layout_provider tk = None)"
    by (simp add: LinuxCSDCustomFrameLayout_RestoredFrameBorderInsets_def
        GetFrameShadowValuesLinux_def and_then_def deref_def Let_def split: option.splits)
  moreover have
    "(PaintRestoredFrameBorderLinux tk view frame_background clip showing_shadow is_active
         border shadow_values tiled_arg = Inl NullPointerDereference)
       = (GetColorProvider view = None)"
    by (simp add: PaintRestoredFrameBorderLinux_def and_then_def deref_def Let_def
        split: option.splits)
  ultimately show ?thesis
    by (simp add: Insets_default_def deref_Inl_iff TLBR_members ClampBottomOrRight_0)
qed

end
